theory Spec2Isabelle
  imports Complex_Main "HOL-Library.Char_ord" "HOL-Library.List_Lexorder" "HOL-Library.Multiset"
begin

section \<open>Observations and station summaries\<close>

text \<open>
  The scripts under \<^verbatim>\<open>dmi/scripts\<close> read GeoJSON features from a paged HTTP
  resource and fold them into a \<^verbatim>\<open>defaultdict\<close> keyed by station id.

  A feature is taken as the scripts read it: \<^verbatim>\<open>props['stationId']\<close> (absent when the
  feature has no properties or no station id), \<^verbatim>\<open>props.get('from')\<close>,
  \<^verbatim>\<open>props.get('value')\<close> and \<^verbatim>\<open>geometry['coordinates']\<close>, a pair
  \<^verbatim>\<open>[longitude, latitude]\<close> when the feature carries geometry. Station ids and
  timestamps are strings, compared as Python compares \<^verbatim>\<open>str\<close>: lexicographically,
  character by character. Measurement values and coordinates are JSON numbers, taken as
  exact rationals.
\<close>

record feature =
  f_stationId :: "string option"
  f_from :: "string option"
  f_value :: "rat option"
  f_coordinates :: "(rat \<times> rat) option"

text \<open>The first eight keys of the default entry are the same in \<^verbatim>\<open>precipitation.py\<close>
  and \<^verbatim>\<open>wind.py\<close>.\<close>

record station_base =
  stationId :: "string option"
  name :: "string option"
  latitude :: "rat option"
  longitude :: "rat option"
  country :: "string option"
  status :: "string option"
  validFrom :: "string option"
  validTo :: "string option"

record precipitation_info = station_base +
  measures_precipitation :: bool
  precipitation_observations :: nat
  first_precipitation_date :: "string option"
  last_precipitation_date :: "string option"
  min_precipitation :: "rat option"
  max_precipitation :: "rat option"
  total_precipitation_sample :: rat

definition default_precipitation :: precipitation_info where
  "default_precipitation =
     \<lparr>stationId = None, name = None, latitude = None, longitude = None,
      country = None, status = None, validFrom = None, validTo = None,
      measures_precipitation = True, precipitation_observations = 0,
      first_precipitation_date = None, last_precipitation_date = None,
      min_precipitation = None, max_precipitation = None,
      total_precipitation_sample = 0\<rparr>"

text \<open>\<^verbatim>\<open>station_info[station_id]\<close> on a \<^verbatim>\<open>defaultdict\<close>: the entry, or the
  default entry for a key not seen before.\<close>

definition entry :: "'a \<Rightarrow> (string \<rightharpoonup> 'a) \<Rightarrow> string \<Rightarrow> 'a" where
  "entry dflt station_info station_id =
     (case station_info station_id of None \<Rightarrow> dflt | Some info \<Rightarrow> info)"

text \<open>
  Lines 82 to 93 of \<^verbatim>\<open>precipitation.py\<close> and 108 to 119 of \<^verbatim>\<open>wind.py\<close>:
  \<^verbatim>\<open>
  if station_info[station_id]['stationId'] is None:
      station_info[station_id].update({'stationId': station_id,
          'latitude': coords[1] if coords else None,
          'longitude': coords[0] if coords else None})
  elif coords and station_info[station_id]['latitude'] is None:
      station_info[station_id]['latitude'] = coords[1]
      station_info[station_id]['longitude'] = coords[0]
  \<close>
\<close>

definition init_or_update :: "string \<Rightarrow> (rat \<times> rat) option \<Rightarrow>
    'a station_base_scheme \<Rightarrow> 'a station_base_scheme" where
  "init_or_update station_id coords info =
     (if stationId info = None then
        info\<lparr>stationId := Some station_id,
             latitude := (case coords of Some c \<Rightarrow> Some (snd c) | None \<Rightarrow> None),
             longitude := (case coords of Some c \<Rightarrow> Some (fst c) | None \<Rightarrow> None)\<rparr>
      else if coords \<noteq> None \<and> latitude info = None then
        info\<lparr>latitude := map_option snd coords, longitude := map_option fst coords\<rparr>
      else info)"

text \<open>
  The date bookkeeping, the same statements in every script:
  \<^verbatim>\<open>
  if not first or from_date < first: first = from_date
  if not last or from_date > last: last = from_date
  \<close>
  \<^verbatim>\<open>not first\<close> holds for \<^verbatim>\<open>None\<close> and for the empty string.
\<close>

definition earlier :: "string \<Rightarrow> string option \<Rightarrow> string option" where
  "earlier from_date first =
     (case first of
        None \<Rightarrow> Some from_date
      | Some d \<Rightarrow> if d = [] \<or> from_date < d then Some from_date else Some d)"

definition later :: "string \<Rightarrow> string option \<Rightarrow> string option" where
  "later from_date latest =
     (case latest of
        None \<Rightarrow> Some from_date
      | Some d \<Rightarrow> if d = [] \<or> from_date > d then Some from_date else Some d)"

text \<open>The running minimum and maximum:
  \<^verbatim>\<open>if m is None or value < m: m = value\<close>.\<close>

definition lower :: "rat \<Rightarrow> rat option \<Rightarrow> rat option" where
  "lower v m = (case m of None \<Rightarrow> Some v | Some w \<Rightarrow> if v < w then Some v else Some w)"

definition higher :: "rat \<Rightarrow> rat option \<Rightarrow> rat option" where
  "higher v m = (case m of None \<Rightarrow> Some v | Some w \<Rightarrow> if v > w then Some v else Some w)"

subsection \<open>The precipitation fold\<close>

text \<open>
  The body of \<^verbatim>\<open>for feature in features\<close> in
  \<^verbatim>\<open>get_precipitation_stations_csv\<close>. A feature without station id is skipped;
  otherwise coordinates, dates, statistics and the observation counter of the station's
  entry are updated, in this order. The counters \<^verbatim>\<open>total_observations\<close>,
  \<^verbatim>\<open>stations_found\<close> and \<^verbatim>\<open>batch_stations\<close> are only printed and
  are left out.
\<close>

definition track_precipitation_dates :: "string option \<Rightarrow> precipitation_info \<Rightarrow> precipitation_info" where
  "track_precipitation_dates from_date info =
     (case from_date of
        None \<Rightarrow> info
      | Some d \<Rightarrow>
          if d = [] then info
          else info\<lparr>first_precipitation_date := earlier d (first_precipitation_date info),
                    last_precipitation_date := later d (last_precipitation_date info)\<rparr>)"

definition track_precipitation_value :: "rat option \<Rightarrow> precipitation_info \<Rightarrow> precipitation_info" where
  "track_precipitation_value precipitation_value info =
     (case precipitation_value of
        None \<Rightarrow> info
      | Some v \<Rightarrow>
          info\<lparr>total_precipitation_sample := total_precipitation_sample info + v,
               min_precipitation := lower v (min_precipitation info),
               max_precipitation := higher v (max_precipitation info)\<rparr>)"

definition observe_precipitation :: "string \<Rightarrow> feature \<Rightarrow> precipitation_info \<Rightarrow> precipitation_info" where
  "observe_precipitation station_id feature info =
     (let info = init_or_update station_id (f_coordinates feature) info;
          info = track_precipitation_dates (f_from feature) info;
          info = track_precipitation_value (f_value feature) info
      in info\<lparr>precipitation_observations := precipitation_observations info + 1\<rparr>)"

definition precipitation_feature ::
    "feature \<Rightarrow> (string \<rightharpoonup> precipitation_info) \<Rightarrow> (string \<rightharpoonup> precipitation_info)" where
  "precipitation_feature feature station_info =
     (case f_stationId feature of
        None \<Rightarrow> station_info
      | Some station_id \<Rightarrow>
          station_info(station_id \<mapsto>
            observe_precipitation station_id feature
              (entry default_precipitation station_info station_id)))"

text \<open>The statistics of an entry: minimum, maximum, sum and observation count.\<close>

definition precipitation_statistics ::
    "precipitation_info \<Rightarrow> rat option \<times> rat option \<times> rat \<times> nat" where
  "precipitation_statistics info =
     (min_precipitation info, max_precipitation info, total_precipitation_sample info,
      precipitation_observations info)"

section \<open>The pagination loop\<close>

text \<open>
  The loop of \<^verbatim>\<open>get_precipitation_stations_csv\<close> (and, once per parameter, of
  \<^verbatim>\<open>get_wind_stations_csv\<close>):
  \<^verbatim>\<open>
  offset = 0
  while offset < max_offset:
      try:
          features = requests.get(..., limit, offset) ... .get('features', [])
          if not features: break
          for feature in features: ...
          offset += limit
          if len(features) < limit: break
      except requests.exceptions.RequestException: break
  \<close>
  The source writes the page size 300000 and the ceiling 1000000 as literals; here they
  are the parameters \<open>limit\<close> and \<open>max_offset\<close>, and \<open>get offset\<close> is the answer of
  the resource to the request with that offset: the decoded features, or the
  \<^verbatim>\<open>RequestException\<close> raised. The loop takes the fold over one page as a
  parameter, since the two scripts differ only there. Besides the summary mapping the
  result records the offsets requested, in order, and which exit the loop took; the
  source prints both.
\<close>

datatype request_exception = RequestException

datatype loop_exit = Empty_page | Short_page | Request_failed | Ceiling_reached

datatype termination_state = DONE | ABORTED

fun termination_of :: "loop_exit \<Rightarrow> termination_state" where
  "termination_of Empty_page = DONE"
| "termination_of Short_page = DONE"
| "termination_of Request_failed = ABORTED"
| "termination_of Ceiling_reached = ABORTED"

record 's pagination =
  summaries :: 's
  requested :: "nat list"
  exit_taken :: loop_exit

partial_function (option) paginate ::
    "('f list \<Rightarrow> 's \<Rightarrow> 's) \<Rightarrow> nat \<Rightarrow> nat \<Rightarrow> (nat \<Rightarrow> request_exception + 'f list) \<Rightarrow>
     nat \<Rightarrow> nat list \<Rightarrow> 's \<Rightarrow> 's pagination option" where
  "paginate fold_page limit max_offset get offset trace station_info =
     (if offset < max_offset then
        (case get offset of
           Inl e \<Rightarrow>
             Some \<lparr>summaries = station_info, requested = trace @ [offset], exit_taken = Request_failed\<rparr>
         | Inr features \<Rightarrow>
             if features = [] then
               Some \<lparr>summaries = station_info, requested = trace @ [offset], exit_taken = Empty_page\<rparr>
             else if length features < limit then
               Some \<lparr>summaries = fold_page features station_info, requested = trace @ [offset],
                     exit_taken = Short_page\<rparr>
             else paginate fold_page limit max_offset get (offset + limit) (trace @ [offset])
                    (fold_page features station_info))
      else Some \<lparr>summaries = station_info, requested = trace, exit_taken = Ceiling_reached\<rparr>)"

definition precipitation_pages ::
    "nat \<Rightarrow> nat \<Rightarrow> (nat \<Rightarrow> request_exception + feature list) \<Rightarrow>
     (string \<rightharpoonup> precipitation_info) pagination option" where
  "precipitation_pages limit max_offset get =
     paginate (fold precipitation_feature) limit max_offset get 0 [] Map.empty"

text \<open>The loop with the constants of the source.\<close>

definition get_precipitation_stations ::
    "(nat \<Rightarrow> request_exception + feature list) \<Rightarrow>
     (string \<rightharpoonup> precipitation_info) pagination option" where
  "get_precipitation_stations get = precipitation_pages 300000 1000000 get"

subsection \<open>The loop of the heating script\<close>

text \<open>
  \<^verbatim>\<open>fetch_month_data\<close> in \<^verbatim>\<open>Combined_Heating_Data_2022-2025.py\<close> pages
  through the records of one month. It has no ceiling:
  \<^verbatim>\<open>
  all_records = []; offset = 0; limit = 20000
  while True:
      try:
          records = requests.get(..., limit, offset) ... .get("records", [])
          if not records: break
          all_records.extend(records)
          if len(records) < limit: break
          offset += limit
      except Exception as e: break
  return all_records
  \<close>
  A loop that may never leave is a partial function: the value \<open>None\<close> stands for a call
  that does not return.
\<close>

partial_function (option) fetch_month_loop ::
    "nat \<Rightarrow> (nat \<Rightarrow> request_exception + 'r list) \<Rightarrow> nat \<Rightarrow> nat list \<Rightarrow> 'r list \<Rightarrow>
     'r list pagination option" where
  "fetch_month_loop limit get offset trace all_records =
     (case get offset of
        Inl e \<Rightarrow>
          Some \<lparr>summaries = all_records, requested = trace @ [offset], exit_taken = Request_failed\<rparr>
      | Inr records \<Rightarrow>
          if records = [] then
            Some \<lparr>summaries = all_records, requested = trace @ [offset], exit_taken = Empty_page\<rparr>
          else if length records < limit then
            Some \<lparr>summaries = all_records @ records, requested = trace @ [offset],
                  exit_taken = Short_page\<rparr>
          else fetch_month_loop limit get (offset + limit) (trace @ [offset])
                 (all_records @ records))"

definition fetch_month_data ::
    "(nat \<Rightarrow> request_exception + 'r list) \<Rightarrow> 'r list pagination option" where
  "fetch_month_data get = fetch_month_loop 20000 get 0 [] []"

subsection \<open>Resources used as examples\<close>

text \<open>Two stations, and the pages of the scenario of the specification: page 1 holds
  station A with value 5 and station B with value 2, page 2 holds station A with value 9.\<close>

definition observation :: "string \<Rightarrow> rat \<Rightarrow> feature" where
  "observation station_id v =
     \<lparr>f_stationId = Some station_id, f_from = None, f_value = Some v, f_coordinates = None\<rparr>"

definition page_1 :: "feature list" where
  "page_1 = [observation ''stationA'' 5, observation ''stationB'' 2]"

definition page_2 :: "feature list" where
  "page_2 = [observation ''stationA'' 9]"

definition two_pages :: "nat \<Rightarrow> request_exception + feature list" where
  "two_pages offset = (if offset = 0 then Inr page_1 else Inr page_2)"

definition page_then_failure :: "nat \<Rightarrow> request_exception + feature list" where
  "page_then_failure offset = (if offset = 0 then Inr page_1 else Inl RequestException)"

text \<open>A resource with four full pages of 300000 observations and a fifth, short page;
  and a resource that answers every request with a full page.\<close>

definition four_full_pages_and_one :: "nat \<Rightarrow> request_exception + feature list" where
  "four_full_pages_and_one offset =
     (if offset < 1200000 then Inr (replicate 300000 (observation ''stationA'' 5))
      else Inr page_2)"

definition always_full :: "nat \<Rightarrow> nat \<Rightarrow> request_exception + feature list" where
  "always_full limit offset = Inr (replicate limit (observation ''stationA'' 5))"

section \<open>Properties of the precipitation fold\<close>

lemma precipitation_feature_same:
  "f_stationId feature = Some station_id \<Longrightarrow>
   precipitation_feature feature station_info station_id =
     Some (observe_precipitation station_id feature
             (entry default_precipitation station_info station_id))"
  by (simp add: precipitation_feature_def)

lemma precipitation_feature_other:
  "f_stationId feature \<noteq> Some station_id \<Longrightarrow>
   precipitation_feature feature station_info station_id = station_info station_id"
  by (simp add: precipitation_feature_def split: option.split)

lemmas observe_precipitation_defs = observe_precipitation_def init_or_update_def
  track_precipitation_dates_def track_precipitation_value_def Let_def

lemma min_observe:
  "min_precipitation (observe_precipitation station_id feature info) =
     (case f_value feature of None \<Rightarrow> min_precipitation info
      | Some v \<Rightarrow> lower v (min_precipitation info))"
  by (simp add: observe_precipitation_defs split: option.split)

lemma max_observe:
  "max_precipitation (observe_precipitation station_id feature info) =
     (case f_value feature of None \<Rightarrow> max_precipitation info
      | Some v \<Rightarrow> higher v (max_precipitation info))"
  by (simp add: observe_precipitation_defs split: option.split)

lemma total_observe:
  "total_precipitation_sample (observe_precipitation station_id feature info) =
     (case f_value feature of None \<Rightarrow> total_precipitation_sample info
      | Some v \<Rightarrow> total_precipitation_sample info + v)"
  by (simp add: observe_precipitation_defs split: option.split)

lemma observations_observe:
  "precipitation_observations (observe_precipitation station_id feature info) =
     precipitation_observations info + 1"
  by (simp add: observe_precipitation_defs split: option.split)

lemmas statistics_observe = min_observe max_observe total_observe observations_observe

text \<open>
  Claim C4. Two observations of one station with the values 3 and 7, folded into a fresh
  mapping, leave the station with minimum 3, maximum 7, sum 10 and count 2, whichever of
  the two arrives first. The other fields of the two features are arbitrary.
\<close>

theorem values_3_and_7_either_order:
  "map_option precipitation_statistics
     (fold precipitation_feature
        [a\<lparr>f_stationId := Some station_id, f_value := Some 3\<rparr>,
         b\<lparr>f_stationId := Some station_id, f_value := Some 7\<rparr>] Map.empty station_id)
     = Some (Some 3, Some 7, 10, 2)
   \<and> map_option precipitation_statistics
     (fold precipitation_feature
        [b\<lparr>f_stationId := Some station_id, f_value := Some 7\<rparr>,
         a\<lparr>f_stationId := Some station_id, f_value := Some 3\<rparr>] Map.empty station_id)
     = Some (Some 3, Some 7, 10, 2)"
  by (simp add: precipitation_feature_same entry_def statistics_observe
      precipitation_statistics_def default_precipitation_def lower_def higher_def)

text \<open>
  Claim C5. An observation whose value is null adds one to the observation count of its
  station and leaves minimum, maximum and sum as they were (for a station not seen
  before: as they are in the default entry).
\<close>

theorem null_value_counts_only:
  "precipitation_statistics
     (entry default_precipitation
        (precipitation_feature (feature\<lparr>f_stationId := Some station_id, f_value := None\<rparr>)
           station_info)
        station_id)
   = (min_precipitation (entry default_precipitation station_info station_id),
      max_precipitation (entry default_precipitation station_info station_id),
      total_precipitation_sample (entry default_precipitation station_info station_id),
      precipitation_observations (entry default_precipitation station_info station_id) + 1)"
  by (simp add: precipitation_feature_same entry_def statistics_observe
      precipitation_statistics_def)

end
